theory Spec2Isabelle
  imports Complex_Main
begin

section \<open>Python values used by the drawing environment\<close>

text \<open>
  Text is a \<open>string\<close>. The backslash cannot be written inside a string literal, so it
  is a named character; a line feed is written \<open>\<newline>\<close>.
\<close>

definition bs :: char where
  "bs = CHR 0x5C"

text \<open>
  A Python \<open>dict\<close> with string keys: an association list whose order is the
  iteration order of the dictionary. \<open>d[k] = v\<close> overwrites the value of a key that is
  present, in place, and appends a key that is absent.
\<close>

type_synonym 'v dict = "(string \<times> 'v) list"

fun dict_set :: "'v dict \<Rightarrow> string \<Rightarrow> 'v \<Rightarrow> 'v dict" where
  "dict_set [] k v = [(k, v)]"
| "dict_set ((k', v') # d) k v =
     (if k' = k then (k', v) # d else (k', v') # dict_set d k v)"

definition dict_keys :: "'v dict \<Rightarrow> string list" where
  "dict_keys d = map fst d"

definition dict_values :: "'v dict \<Rightarrow> 'v list" where
  "dict_values d = map snd d"

text \<open>Inserting a sequence of entries, one assignment after the other, into a dictionary.\<close>

definition dict_insert_all :: "(string \<times> 'v) list \<Rightarrow> 'v dict \<Rightarrow> 'v dict" where
  "dict_insert_all kvs d = fold (\<lambda>kv d. dict_set d (fst kv) (snd kv)) kvs d"

section \<open>TikzPicture\<close>

text \<open>
  Modelled from the spec: the helper \<open>brackets\<close> of \<open>tikzpy.utils.helpers\<close> is
  imported by \<open>tikz_picture.py\<close> but its definition is not among the sources. The spec
  says of rendering with options that empty options omit the bracket entirely and
  non-empty options are embedded verbatim inside brackets.
\<close>

definition brackets :: "string \<Rightarrow> string" where
  "brackets s = (if s = [] then [] else ''['' @ s @ '']'')"

text \<open>
  The fields of a \<open>TikzPicture\<close> that \<open>code\<close>, \<open>__repr__\<close> and \<open>add_styles\<close>
  read and write. \<open>options\<close> and \<open>drawing_objects\<close> belong to the base class
  \<open>TikzEnvironment\<close>; a drawable is represented by the text of its \<open>code\<close>
  property, the only thing the picture reads from it.
\<close>

record tikz_picture =
  options :: string
  drawing_objects :: "string list"
  preamble :: "string dict"
  postamble :: "string dict"

text \<open>\<open>TikzPicture.__init__\<close>: both dictionaries get the key \<open>center\<close>.\<close>

definition TikzPicture :: "bool \<Rightarrow> string \<Rightarrow> tikz_picture" where
  "TikzPicture center opts =
     (let self = \<lparr>options = opts, drawing_objects = [], preamble = [], postamble = []\<rparr>
      in if center
         then self\<lparr>preamble := dict_set (preamble self) ''center''
                                (bs # ''begin{center}\<newline>''),
                   postamble := dict_set (postamble self) ''center''
                                (bs # ''end{center}\<newline>'')\<rparr>
         else self\<lparr>preamble := dict_set (preamble self) ''center'' [],
                   postamble := dict_set (postamble self) ''center'' []\<rparr>)"

text \<open>Appending a drawable to the picture (the base class's \<open>draw\<close>).\<close>

definition draw :: "string \<Rightarrow> tikz_picture \<Rightarrow> tikz_picture" where
  "draw draw_obj self = self\<lparr>drawing_objects := drawing_objects self @ [draw_obj]\<rparr>"

text \<open>The two wrapper lines and the line of one drawable.\<close>

definition begin_tikzpicture :: "string \<Rightarrow> string" where
  "begin_tikzpicture opts = bs # ''begin{tikzpicture}'' @ brackets opts @ ''\<newline>''"

definition end_tikzpicture :: string where
  "end_tikzpicture = bs # ''end{tikzpicture}\<newline>''"

definition draw_line :: "string \<Rightarrow> string" where
  "draw_line draw_obj = ''    '' @ draw_obj @ ''\<newline>''"

text \<open>
  \<open>TikzPicture.code\<close>: every \<open>for\<close> loop of the source is a \<open>fold\<close> that appends
  to the accumulated text.
\<close>

definition code :: "tikz_picture \<Rightarrow> string" where
  "code self =
     (let code = [];
          code = fold (\<lambda>stmt code. code @ stmt) (dict_values (preamble self)) code;
          code = code @ begin_tikzpicture (options self);
          code = fold (\<lambda>draw_obj code. code @ draw_line draw_obj) (drawing_objects self) code;
          code = code @ end_tikzpicture;
          code = fold (\<lambda>stmt code. code @ stmt) (rev (dict_values (postamble self))) code
      in code)"

text \<open>\<open>TikzPicture.__repr__\<close>.\<close>

definition repr :: "tikz_picture \<Rightarrow> string" where
  "repr self =
     (let readable_code = begin_tikzpicture (options self);
          readable_code = fold (\<lambda>draw_obj code. code @ draw_line draw_obj)
                            (drawing_objects self) readable_code;
          readable_code = readable_code @ end_tikzpicture
      in readable_code)"

text \<open>
  A \<open>TikzStyle\<close> as \<open>add_styles\<close> reads it: its name and the text of its \<open>code\<close>
  property.
\<close>

record tikz_style =
  style_name :: string
  style_code :: string

text \<open>\<open>TikzPicture.add_styles\<close>: one dictionary assignment per style, in order.\<close>

definition style_key :: "tikz_style \<Rightarrow> string" where
  "style_key style = ''tikz_style:'' @ style_name style"

definition add_styles :: "tikz_style list \<Rightarrow> tikz_picture \<Rightarrow> tikz_picture" where
  "add_styles styles self =
     fold (\<lambda>style self. self\<lparr>preamble := dict_set (preamble self) (style_key style)
                                               (style_code style)\<rparr>) styles self"

text \<open>The position of a key in the iteration order of a dictionary.\<close>

definition index_of :: "'a \<Rightarrow> 'a list \<Rightarrow> nat" where
  "index_of k ks = length (takeWhile (\<lambda>k'. k' \<noteq> k) ks)"

section \<open>save_png: choosing the page and the crop window\<close>

datatype py_error = IndexError

text \<open>
  What \<open>save_png\<close> prints: the warning about the number of pages, which names the PDF
  path, and the line \<open>Converting page ind/total\<close>.
\<close>

datatype 'path printed = Warning_pages 'path | Converting_page nat nat

text \<open>
  The first part of \<open>save_png\<close>, up to the line that prints the page: the pages come
  from the rasterizer \<open>convert_from_path\<close>; the result is what was printed and the
  chosen page. \<open>page_pngs[ind]\<close> raises \<open>IndexError\<close> when there is no such page.
\<close>

definition select_page :: "'path \<Rightarrow> 'img list \<Rightarrow> py_error + ('path printed list \<times> 'img)" where
  "select_page pdf_fp page_pngs =
     (let total = length page_pngs;
          ind = 0;
          out = [];
          (out, ind) = (if total > 1
                        then (out @ [Warning_pages pdf_fp], length page_pngs - 1)
                        else (out, ind))
      in if ind < length page_pngs
         then Inr (out @ [Converting_page ind total], page_pngs ! ind)
         else Inl IndexError)"

text \<open>
  The shape \<open>(rows, columns)\<close> of a two-dimensional array: \<open>len\<close> is its number of
  rows and \<open>T\<close> its transpose.
\<close>

type_synonym shape = "nat \<times> nat"

definition len :: "shape \<Rightarrow> nat" where
  "len a = fst a"

definition T :: "shape \<Rightarrow> shape" where
  "T a = (snd a, fst a)"

text \<open>\<open>int()\<close> of a Python float truncates towards zero.\<close>

definition py_int :: "real \<Rightarrow> int" where
  "py_int r = (if 0 \<le> r then \<lfloor>r\<rfloor> else \<lceil>r\<rceil>)"

text \<open>
  The crop window of \<open>save_png\<close>. The boundaries \<open>y_0\<close>, \<open>y_1\<close>, \<open>x_0\<close>,
  \<open>x_1\<close> are what \<open>find_image_start_boundary\<close> and \<open>find_image_end_boundary\<close> return
  on \<open>img_data\<close> and on its transpose; these helpers are not among the sources, so their
  results are parameters. The source assigns \<open>len(img_data.T)\<close> to both
  \<open>horizontal_len\<close> and \<open>vertical_len\<close>. Float products are exact reals here. The
  result is \<open>(y_0, y_1, x_0, x_1)\<close>, the bounds of the slice
  \<open>img_data[y_0:y_1, x_0:x_1]\<close>.
\<close>

definition crop_window :: "shape \<Rightarrow> int \<Rightarrow> int \<Rightarrow> int \<Rightarrow> int \<Rightarrow> int \<times> int \<times> int \<times> int" where
  "crop_window img_data y_0 y_1 x_0 x_1 =
     (let horizontal_len = len (T img_data);
          vertical_len = len (T img_data);
          x_0 = py_int (min (0.20 * real horizontal_len) (of_int x_0));
          x_1 = py_int (max (0.80 * real horizontal_len) (of_int x_1));
          y_0 = py_int (max 0 (of_int y_0 - 0.02 * real vertical_len));
          y_1 = py_int (min (real vertical_len) (of_int y_1 + 0.02 * real vertical_len))
      in (y_0, y_1, x_0, x_1))"

section \<open>Numbers, points and the rectangle\<close>

text \<open>
  A Python number is an \<open>int\<close> or a \<open>float\<close>. Ints are exact. A float is taken as
  the exact real it denotes: the rounding of float results, infinities and NaN are
  outside this model, so what is proved of float values is proved of this idealisation
  only. Arithmetic on two ints gives an int, any
  other sum, difference or product gives a float, and \<open>/\<close> always gives a float.
  \<open>abs\<close>, \<open>min\<close> and \<open>max\<close> return one of their arguments (\<open>min\<close> and
  \<open>max\<close> the first one on a tie). Comparison with \<open>==\<close> is by value.
\<close>

datatype number = PInt int | PFloat real

fun val :: "number \<Rightarrow> real" where
  "val (PInt i) = of_int i"
| "val (PFloat r) = r"

fun add :: "number \<Rightarrow> number \<Rightarrow> number" where
  "add (PInt a) (PInt b) = PInt (a + b)"
| "add a b = PFloat (val a + val b)"

fun sub :: "number \<Rightarrow> number \<Rightarrow> number" where
  "sub (PInt a) (PInt b) = PInt (a - b)"
| "sub a b = PFloat (val a - val b)"

fun mul :: "number \<Rightarrow> number \<Rightarrow> number" where
  "mul (PInt a) (PInt b) = PInt (a * b)"
| "mul a b = PFloat (val a * val b)"

definition half :: "number \<Rightarrow> number" where
  "half a = PFloat (val a / 2)"

fun n_abs :: "number \<Rightarrow> number" where
  "n_abs (PInt a) = PInt \<bar>a\<bar>"
| "n_abs (PFloat r) = PFloat \<bar>r\<bar>"

definition n_min :: "number \<Rightarrow> number \<Rightarrow> number" where
  "n_min a b = (if val b < val a then b else a)"

definition n_max :: "number \<Rightarrow> number \<Rightarrow> number" where
  "n_max a b = (if val a < val b then b else a)"

text \<open>\<open>str\<close> of an int: its decimal digits, with a minus sign when negative.\<close>

fun str_nat :: "nat \<Rightarrow> string" where
  "str_nat n = (if n < 10 then [''0123456789'' ! n]
                else str_nat (n div 10) @ [''0123456789'' ! (n mod 10)])"

definition str_int :: "int \<Rightarrow> string" where
  "str_int i = (if i < 0 then ''-'' @ str_nat (nat (- i)) else str_nat (nat i))"

text \<open>
  \<open>str\<close> of a number. The text Python prints for a float is a parameter
  (\<open>str_float\<close>): it is the language's and depends on the binary representation.
\<close>

fun str_number :: "(real \<Rightarrow> string) \<Rightarrow> number \<Rightarrow> string" where
  "str_number str_float (PInt i) = str_int i"
| "str_number str_float (PFloat r) = str_float r"

text \<open>
  Modelled from the spec: the class \<open>Point\<close> is not among the sources (only the tests
  of the rectangle are). The spec: a pair of numeric coordinates \<open>(x, y)\<close>; two points
  are equal iff both coordinates are equal. In the rectangle's text a point is written
  \<open>(<x>, <y>)\<close>.
\<close>

datatype point = Point (x_of: number) (y_of: number)

text \<open>
  Modelled from the spec: \<open>Point\<close> equality (class not among the sources): two points
  are equal iff both coordinates are equal, as numbers.
\<close>

definition point_eq :: "point \<Rightarrow> point \<Rightarrow> bool" where
  "point_eq p q = (val (x_of p) = val (x_of q) \<and> val (y_of p) = val (y_of q))"

text \<open>
  Modelled from the spec: the text of a \<open>Point\<close> (class not among the sources), as it
  stands in the rectangle's text: \<open>(<x>, <y>)\<close>.
\<close>

definition point_code :: "(real \<Rightarrow> string) \<Rightarrow> point \<Rightarrow> string" where
  "point_code str_float p =
     ''('' @ str_number str_float (x_of p) @ '', '' @ str_number str_float (y_of p) @ '')''"

text \<open>
  Modelled from the spec: the class \<open>Rectangle\<close> is not among the sources (only its
  tests are). The spec: attributes \<open>left_corner\<close>, \<open>right_corner\<close>, the options, and
  the derived properties \<open>height\<close>, \<open>width\<close>, \<open>center\<close>, \<open>north\<close>,
  \<open>south\<close>, \<open>east\<close>, \<open>west\<close>; \<open>height = |right.y - left.y|\<close>,
  \<open>width = |right.x - left.x|\<close>; the four edge midpoints and the center are computed
  from \<open>min_x\<close>, \<open>max_x\<close>, \<open>min_y\<close>, \<open>max_y\<close> of the current corners;
  construction stores the raw corners as given, and setting a corner, \<open>shift\<close> and
  \<open>scale\<close> recompute the derived attributes.
\<close>

record rectangle =
  left_corner :: point
  right_corner :: point
  rect_options :: string
  height :: number
  width :: number
  center :: point
  north :: point
  south :: point
  east :: point
  west :: point

text \<open>
  Modelled from the spec: the recomputation of the derived attributes of \<open>Rectangle\<close>
  (class not among the sources): height and width are the absolute differences of the
  corners' coordinates; center, north, south, east and west are computed from
  \<open>min_x\<close>, \<open>max_x\<close>, \<open>min_y\<close>, \<open>max_y\<close>, not from the raw order of the
  corners.
\<close>

definition set_attributes :: "rectangle \<Rightarrow> rectangle" where
  "set_attributes self =
     (let l = left_corner self;
          r = right_corner self;
          min_x = n_min (x_of l) (x_of r);
          max_x = n_max (x_of l) (x_of r);
          min_y = n_min (y_of l) (y_of r);
          max_y = n_max (y_of l) (y_of r);
          mid_x = half (add min_x max_x);
          mid_y = half (add min_y max_y)
      in self\<lparr>height := n_abs (sub (y_of r) (y_of l)),
               width := n_abs (sub (x_of r) (x_of l)),
               center := Point mid_x mid_y,
               north := Point mid_x max_y,
               south := Point mid_x min_y,
               east := Point max_x mid_y,
               west := Point min_x mid_y\<rparr>)"

text \<open>
  Modelled from the spec: the constructor of \<open>Rectangle\<close> (class not among the
  sources) stores the raw corners as given, with no reordering, and the options. The
  derived attributes do not exist before \<open>set_attributes\<close> assigns them; the record
  needs some value there, which \<open>set_attributes\<close> overwrites.
\<close>

definition Rectangle :: "point \<Rightarrow> point \<Rightarrow> string \<Rightarrow> rectangle" where
  "Rectangle l r opts =
     set_attributes \<lparr>left_corner = l, right_corner = r, rect_options = opts,
                     height = PInt 0, width = PInt 0, center = l,
                     north = l, south = l, east = l, west = l\<rparr>"

text \<open>
  Modelled from the spec: the setters of \<open>left_corner\<close> and \<open>right_corner\<close> (class
  not among the sources): setting either corner triggers the recomputation of the derived
  attributes.
\<close>

definition set_left_corner :: "point \<Rightarrow> rectangle \<Rightarrow> rectangle" where
  "set_left_corner new_corner self = set_attributes (self\<lparr>left_corner := new_corner\<rparr>)"

definition set_right_corner :: "point \<Rightarrow> rectangle \<Rightarrow> rectangle" where
  "set_right_corner new_corner self = set_attributes (self\<lparr>right_corner := new_corner\<rparr>)"

text \<open>
  Modelled from the spec: translating and scaling a \<open>Point\<close> (class not among the
  sources): the delta is added to each coordinate; the factor multiplies each
  coordinate, which scales about the origin.
\<close>

definition point_shift :: "number \<Rightarrow> number \<Rightarrow> point \<Rightarrow> point" where
  "point_shift xshift yshift p = Point (add (x_of p) xshift) (add (y_of p) yshift)"

definition point_scale :: "number \<Rightarrow> point \<Rightarrow> point" where
  "point_scale scale p = Point (mul (x_of p) scale) (mul (y_of p) scale)"

text \<open>
  Modelled from the spec: \<open>Rectangle.shift\<close> and \<open>Rectangle.scale\<close> (class not
  among the sources): \<open>shift\<close> translates both corners by the same delta, \<open>scale\<close>
  multiplies both corners' coordinates by the factor; both recompute the derived
  attributes.
\<close>

definition shift :: "number \<Rightarrow> number \<Rightarrow> rectangle \<Rightarrow> rectangle" where
  "shift xshift yshift self =
     set_attributes (self\<lparr>left_corner := point_shift xshift yshift (left_corner self),
                          right_corner := point_shift xshift yshift (right_corner self)\<rparr>)"

definition scale :: "number \<Rightarrow> rectangle \<Rightarrow> rectangle" where
  "scale factor self =
     set_attributes (self\<lparr>left_corner := point_scale factor (left_corner self),
                          right_corner := point_scale factor (right_corner self)\<rparr>)"

text \<open>
  Modelled from the spec: the \<open>code\<close> property of \<open>Rectangle\<close> (class not among the
  sources), the exact text
  \<open>\draw[<options>] (<left.x>, <left.y>) rectangle (<right.x>, <right.y>);\<close> with the
  bracket omitted when the options are empty.
\<close>

definition rect_code :: "(real \<Rightarrow> string) \<Rightarrow> rectangle \<Rightarrow> string" where
  "rect_code str_float self =
     bs # ''draw'' @ brackets (rect_options self) @ '' ''
     @ point_code str_float (left_corner self) @ '' rectangle ''
     @ point_code str_float (right_corner self) @ '';''"

text \<open>
  The derived attributes as real numbers, for comparison by value: height, width, and
  the coordinates of center, north, south, east, west.
\<close>

definition point_val :: "point \<Rightarrow> real \<times> real" where
  "point_val p = (val (x_of p), val (y_of p))"

definition geometry :: "rectangle \<Rightarrow> real \<times> real \<times> (real \<times> real) list" where
  "geometry self =
     (val (height self), val (width self),
      map point_val [center self, north self, south self, east self, west self])"

text \<open>
  The same attributes written from the spec's sentence about normalized coordinates:
  \<open>width = |right.x - left.x|\<close>, \<open>height = |right.y - left.y|\<close>, and the center and
  compass points of the box from \<open>(min_x, min_y)\<close> to \<open>(max_x, max_y)\<close>.
\<close>

definition normalized_geometry :: "point \<Rightarrow> point \<Rightarrow> real \<times> real \<times> (real \<times> real) list" where
  "normalized_geometry l r =
     (let lx = val (x_of l); ly = val (y_of l); rx = val (x_of r); ry = val (y_of r);
          min_x = min lx rx; max_x = max lx rx; min_y = min ly ry; max_y = max ly ry
      in (\<bar>ry - ly\<bar>, \<bar>rx - lx\<bar>,
          [((min_x + max_x) / 2, (min_y + max_y) / 2),
           ((min_x + max_x) / 2, max_y),
           ((min_x + max_x) / 2, min_y),
           (max_x, (min_y + max_y) / 2),
           (min_x, (min_y + max_y) / 2)]))"

section \<open>Lemmas on dictionaries and on appending loops\<close>

lemma fold_append_concat: "fold (\<lambda>s acc. acc @ f s) xs acc = acc @ concat (map f xs)"
  by (induction xs arbitrary: acc) simp_all

lemma dict_set_keys:
  "map fst (dict_set d k v) = (if k \<in> set (map fst d) then map fst d else map fst d @ [k])"
  by (induction d) (auto simp: rev_image_eqI)

lemma dict_set_fresh: "k \<notin> set (map fst d) \<Longrightarrow> dict_set d k v = d @ [(k, v)]"
  by (induction d) auto

lemma dict_insert_all_fresh:
  "distinct (map fst kvs) \<Longrightarrow> set (map fst kvs) \<inter> set (map fst d) = {} \<Longrightarrow>
   dict_insert_all kvs d = d @ kvs"
proof (induction kvs arbitrary: d)
  case Nil
  then show ?case by (simp add: dict_insert_all_def)
next
  case (Cons kv kvs)
  have fresh: "fst kv \<notin> set (map fst d)"
    using Cons.prems(2) by auto
  have step: "dict_insert_all (kv # kvs) d = dict_insert_all kvs (d @ [kv])"
    using fresh by (simp add: dict_insert_all_def dict_set_fresh)
  have "dict_insert_all kvs (d @ [kv]) = (d @ [kv]) @ kvs"
    using Cons.prems by (intro Cons.IH) auto
  with step show ?case by simp
qed

section \<open>Rendering the full text\<close>

text \<open>
  C2. For every picture, \<open>code\<close> emits the preamble fragments in the order in which
  their keys were inserted, then the \<open>begin{tikzpicture}\<close> line, the drawables and the
  \<open>end{tikzpicture}\<close> line, and after that the postamble fragments in the reverse of the
  order in which their keys were inserted.
\<close>

theorem code_preamble_in_order_postamble_reversed:
  assumes "distinct (map fst pre)" and "distinct (map fst post)"
  shows "code (self\<lparr>preamble := dict_insert_all pre [], postamble := dict_insert_all post []\<rparr>) =
         concat (map snd pre) @ begin_tikzpicture (options self)
         @ concat (map draw_line (drawing_objects self)) @ end_tikzpicture
         @ concat (rev (map snd post))"
proof -
  have pre: "dict_insert_all pre [] = pre"
    using assms(1) dict_insert_all_fresh [of pre "[]"] by simp
  have post: "dict_insert_all post [] = post"
    using assms(2) dict_insert_all_fresh [of post "[]"] by simp
  have loop: "\<And>xs acc. fold (\<lambda>stmt code. code @ stmt) xs acc = acc @ concat xs"
    using fold_append_concat [where f = "\<lambda>s. s"] by simp
  show ?thesis
    unfolding pre post code_def Let_def dict_values_def
    by (simp add: loop fold_append_concat)
qed

theorem code_preamble_in_order_postamble_reversed_witness:
  "distinct (map fst [(''center'', ''A''), (''tikz_style:s'', ''B'')])
   \<and> distinct (map fst [(''center'', ''Y''), (''outer'', ''Z'')])
   \<and> code \<lparr>options = ''x'', drawing_objects = [''d''],
             preamble = dict_insert_all [(''center'', ''A''), (''tikz_style:s'', ''B'')] [],
             postamble = dict_insert_all [(''center'', ''Y''), (''outer'', ''Z'')] []\<rparr>
       = ''AB'' @ bs # ''begin{tikzpicture}[x]\<newline>    d\<newline>''
         @ bs # ''end{tikzpicture}\<newline>ZY''"
  using code_preamble_in_order_postamble_reversed
          [of "[(''center'', ''A''), (''tikz_style:s'', ''B'')]"
              "[(''center'', ''Y''), (''outer'', ''Z'')]"
              "\<lparr>options = ''x'', drawing_objects = [''d''], preamble = [], postamble = []\<rparr>"]
  by (simp add: begin_tikzpicture_def end_tikzpicture_def draw_line_def brackets_def)

section \<open>The readable text of a picture that is not centered\<close>

lemma fold_draw_fields:
  "drawing_objects (fold draw ds self) = drawing_objects self @ ds
   \<and> options (fold draw ds self) = options self
   \<and> preamble (fold draw ds self) = preamble self
   \<and> postamble (fold draw ds self) = postamble self"
  by (induction ds arbitrary: self) (simp_all add: draw_def)

text \<open>
  C10. A picture constructed with \<open>center = False\<close>, to which drawables are added and
  in which no style and no 3D directive is registered, has the same text from
  \<open>__repr__\<close> and from \<open>code\<close>, whatever the drawables are.
\<close>

theorem repr_eq_code_not_centered:
  "repr (fold draw ds (TikzPicture False opts)) = code (fold draw ds (TikzPicture False opts))"
  by (simp add: repr_def code_def Let_def fold_draw_fields TikzPicture_def dict_values_def)

section \<open>Re-registering a style\<close>

lemma dict_set_distinct: "distinct (map fst d) \<Longrightarrow> distinct (map fst (dict_set d k v))"
  by (simp add: dict_set_keys)

lemma dict_set_index:
  "k \<in> set (map fst d) \<Longrightarrow> index_of k (map fst (dict_set d k' v)) = index_of k (map fst d)"
  unfolding index_of_def dict_set_keys
  by (simp add: takeWhile_append1 del: set_map)

lemma dict_set_mem: "k \<in> set (map fst d) \<Longrightarrow> k \<in> set (map fst (dict_set d k' v))"
  by (simp add: dict_set_keys del: set_map)

lemma dict_set_self_mem: "k \<in> set (map fst (dict_set d k v))"
  by (simp add: dict_set_keys del: set_map)

lemma dict_insert_all_keeps:
  "k \<in> set (map fst d) \<Longrightarrow>
   k \<in> set (map fst (dict_insert_all kvs d))
   \<and> index_of k (map fst (dict_insert_all kvs d)) = index_of k (map fst d)"
proof (induction kvs arbitrary: d)
  case Nil
  then show ?case by (simp add: dict_insert_all_def)
next
  case (Cons kv kvs)
  have unfold: "dict_insert_all (kv # kvs) d = dict_insert_all kvs (dict_set d (fst kv) (snd kv))"
    by (simp add: dict_insert_all_def)
  have mem: "k \<in> set (map fst (dict_set d (fst kv) (snd kv)))"
    using Cons.prems by (rule dict_set_mem)
  from Cons.IH [OF mem] dict_set_index [OF Cons.prems] unfold show ?case
    by simp
qed

lemma dict_insert_all_distinct:
  "distinct (map fst d) \<Longrightarrow> distinct (map fst (dict_insert_all kvs d))"
proof (induction kvs arbitrary: d)
  case Nil
  then show ?case by (simp add: dict_insert_all_def)
next
  case (Cons kv kvs)
  have "distinct (map fst (dict_insert_all kvs (dict_set d (fst kv) (snd kv))))"
    using Cons.prems by (intro Cons.IH dict_set_distinct)
  then show ?case by (simp add: dict_insert_all_def)
qed

lemma dict_set_at_index:
  "k \<in> set (map fst d) \<Longrightarrow> dict_set d k v ! index_of k (map fst d) = (k, v)"
  by (induction d) (auto simp: index_of_def rev_image_eqI)

lemma distinct_key_once:
  "distinct (map fst d) \<Longrightarrow> k \<in> set (map fst d) \<Longrightarrow>
   length (filter (\<lambda>kv. fst kv = k) d) = 1"
proof (induction d)
  case Nil
  then show ?case by simp
next
  case (Cons kv d)
  show ?case
  proof (cases "fst kv = k")
    case True
    then have "k \<notin> fst ` set d" using Cons.prems(1) by auto
    then have "filter (\<lambda>kv. fst kv = k) d = []"
      by (auto simp: filter_empty_conv)
    with True show ?thesis by simp
  next
    case False
    with Cons show ?thesis by auto
  qed
qed

lemma add_styles_preamble:
  "preamble (add_styles styles self) =
   dict_insert_all (map (\<lambda>s. (style_key s, style_code s)) styles) (preamble self)"
  by (induction styles arbitrary: self) (simp_all add: add_styles_def dict_insert_all_def)

text \<open>
  C5. Registering a style writes the preamble entry whose key is made from the
  style's name; different names give different keys. The keys of a dictionary are
  distinct. When a style is registered, then any other styles, then a style with
  the same name as the first, the preamble holds exactly one entry under that key, the
  entry is at the position it got at its first registration, and its text is the later
  definition.
\<close>

theorem add_styles_same_name_overwrites_in_place:
  assumes "distinct (dict_keys (preamble self))"
      and "style_name s2 = style_name s1"
  shows "let first = add_styles [s1] self;
             final = add_styles (others @ [s2]) first;
             pos = index_of (style_key s1) (dict_keys (preamble first))
         in length (filter (\<lambda>kv. fst kv = style_key s1) (preamble final)) = 1
            \<and> index_of (style_key s1) (dict_keys (preamble final)) = pos
            \<and> preamble final ! pos = (style_key s1, style_code s2)
            \<and> (style_key a = style_key b) = (style_name a = style_name b)"
proof -
  define k where "k = style_key s1"
  define d1 where "d1 = dict_set (preamble self) k (style_code s1)"
  define d2 where "d2 = dict_insert_all (map (\<lambda>s. (style_key s, style_code s)) others) d1"
  define d3 where "d3 = dict_set d2 k (style_code s2)"
  have key2: "style_key s2 = k"
    using assms(2) by (simp add: k_def style_key_def)
  have first: "preamble (add_styles [s1] self) = d1"
    by (simp add: add_styles_preamble dict_insert_all_def d1_def k_def)
  have final: "preamble (add_styles (others @ [s2]) (add_styles [s1] self)) = d3"
    by (simp add: add_styles_preamble dict_insert_all_def d1_def d2_def d3_def k_def key2 [unfolded k_def])
  have mem1: "k \<in> set (map fst d1)"
    unfolding d1_def by (rule dict_set_self_mem)
  have keep: "k \<in> set (map fst d2) \<and> index_of k (map fst d2) = index_of k (map fst d1)"
    unfolding d2_def using mem1 by (rule dict_insert_all_keeps)
  have dist3: "distinct (map fst d3)"
    unfolding d3_def d2_def d1_def
    using assms(1) by (intro dict_set_distinct dict_insert_all_distinct) (simp add: dict_keys_def)
  have mem3: "k \<in> set (map fst d3)"
    unfolding d3_def by (rule dict_set_self_mem)
  have once: "length (filter (\<lambda>kv. fst kv = k) d3) = 1"
    using dist3 mem3 by (rule distinct_key_once)
  have idx: "index_of k (map fst d3) = index_of k (map fst d1)"
    using keep dict_set_index [of k d2 k "style_code s2"] by (simp add: d3_def)
  have at: "d3 ! index_of k (map fst d1) = (k, style_code s2)"
    using keep dict_set_at_index [of k d2 "style_code s2"] by (simp add: d3_def)
  show ?thesis
    unfolding Let_def first final dict_keys_def
    using once idx at by (simp add: k_def style_key_def)
qed

theorem add_styles_same_name_overwrites_in_place_witness:
  "distinct (dict_keys (preamble (TikzPicture True [])))
   \<and> style_name \<lparr>style_name = ''a'', style_code = ''new''\<rparr>
       = style_name \<lparr>style_name = ''a'', style_code = ''old''\<rparr>
   \<and> preamble (add_styles [\<lparr>style_name = ''b'', style_code = ''other''\<rparr>,
                            \<lparr>style_name = ''a'', style_code = ''new''\<rparr>]
                 (add_styles [\<lparr>style_name = ''a'', style_code = ''old''\<rparr>] (TikzPicture True [])))
       = [(''center'', bs # ''begin{center}\<newline>''), (''tikz_style:a'', ''new''),
          (''tikz_style:b'', ''other'')]"
  using add_styles_same_name_overwrites_in_place
          [of "TikzPicture True []" "\<lparr>style_name = ''a'', style_code = ''new''\<rparr>"
              "\<lparr>style_name = ''a'', style_code = ''old''\<rparr>"
              "[\<lparr>style_name = ''b'', style_code = ''other''\<rparr>]"]
  by (simp add: TikzPicture_def add_styles_def style_key_def dict_keys_def)

section \<open>The page and the crop window of save_png\<close>

text \<open>
  C6. When the rasterizer returns more than one page, \<open>save_png\<close> prints the
  warning, takes the last page and does not raise; when it returns exactly one page,
  that page is taken and no warning is printed.
\<close>

theorem select_page_last_of_many:
  "(1 < length page_pngs \<longrightarrow>
      select_page pdf_fp page_pngs =
        Inr ([Warning_pages pdf_fp, Converting_page (length page_pngs - 1) (length page_pngs)],
             last page_pngs))
   \<and> select_page pdf_fp [img] = Inr ([Converting_page 0 1], img)"
proof (intro conjI impI)
  assume many: "1 < length page_pngs"
  then have "page_pngs \<noteq> []" by auto
  then have "page_pngs ! (length page_pngs - 1) = last page_pngs"
    by (simp add: last_conv_nth)
  with many show "select_page pdf_fp page_pngs =
        Inr ([Warning_pages pdf_fp, Converting_page (length page_pngs - 1) (length page_pngs)],
             last page_pngs)"
    by (simp add: select_page_def Let_def)
next
  show "select_page pdf_fp [img] = Inr ([Converting_page 0 1], img)"
    by (simp add: select_page_def)
qed

theorem select_page_last_of_many_witness:
  "1 < length [''p0'', ''p1'', ''p2'']
   \<and> select_page ''temp.pdf'' [''p0'', ''p1'', ''p2'']
       = Inr ([Warning_pages ''temp.pdf'', Converting_page 2 3], ''p2'')"
  using select_page_last_of_many [of "[''p0'', ''p1'', ''p2'']" "''temp.pdf''" "''p0''"]
  by (simp add: numeral_2_eq_2 numeral_3_eq_3)

text \<open>
  C1. The claim asks for a vertical padding of 2% of the image height and for
  \<open>y_1\<close> at most the height. The source takes \<open>vertical_len\<close> from the
  transposed array, which is the width. On a page of 100 rows and 1000 columns whose
  content ends in row 99, the padding is 20 rows and the lower bound is 119, beyond the
  100 rows of the image.
\<close>

theorem crop_window_wide_image_exceeds_height:
  "crop_window (100, 1000) 0 99 0 999 = (0, 119, 0, 999)
   \<and> int (len (100, 1000)) < fst (snd (crop_window (100, 1000) 0 99 0 999))"
  by (simp add: crop_window_def Let_def len_def T_def py_int_def)

section \<open>The rectangle\<close>

lemma val_add: "val (add a b) = val a + val b"
  by (cases a; cases b) simp_all

lemma val_sub: "val (sub a b) = val a - val b"
  by (cases a; cases b) simp_all

lemma val_half: "val (half a) = val a / 2"
  by (simp add: half_def)

lemma val_n_abs: "val (n_abs a) = \<bar>val a\<bar>"
  by (cases a) simp_all

lemma val_n_min: "val (n_min a b) = min (val a) (val b)"
  by (simp add: n_min_def min_def)

lemma val_n_max: "val (n_max a b) = max (val a) (val b)"
  by (simp add: n_max_def max_def)

lemmas val_simps = val_add val_sub val_half val_n_abs val_n_min val_n_max

lemma set_attributes_corners:
  "left_corner (set_attributes self) = left_corner self
   \<and> right_corner (set_attributes self) = right_corner self
   \<and> rect_options (set_attributes self) = rect_options self"
  by (simp add: set_attributes_def Let_def)

lemma geometry_set_attributes:
  "geometry (set_attributes self) = normalized_geometry (left_corner self) (right_corner self)"
  by (simp add: geometry_def normalized_geometry_def set_attributes_def Let_def point_val_def
      val_simps)

lemma normalized_geometry_orderings:
  "normalized_geometry (Point c b) (Point a d) = normalized_geometry (Point a b) (Point c d)
   \<and> normalized_geometry (Point a d) (Point c b) = normalized_geometry (Point a b) (Point c d)
   \<and> normalized_geometry (Point c d) (Point a b) = normalized_geometry (Point a b) (Point c d)"
  by (simp add: normalized_geometry_def Let_def min.commute max.commute abs_minus_commute add.commute)

text \<open>
  C3. For every pair of corners, in any order, the width is \<open>|right.x - left.x|\<close>,
  the height is \<open>|right.y - left.y|\<close> and the center and the four compass points are
  those of the normalized box; this holds at construction and after assigning a corner,
  shifting and scaling, and all four orderings of the same two x and two y coordinates
  give the same values.
\<close>

theorem rectangle_geometry_normalized:
  "geometry (Rectangle l r opts) = normalized_geometry l r
   \<and> geometry (set_left_corner p self)
       = normalized_geometry (left_corner (set_left_corner p self))
                             (right_corner (set_left_corner p self))
   \<and> geometry (set_right_corner p self)
       = normalized_geometry (left_corner (set_right_corner p self))
                             (right_corner (set_right_corner p self))
   \<and> geometry (shift dx dy self)
       = normalized_geometry (left_corner (shift dx dy self)) (right_corner (shift dx dy self))
   \<and> geometry (scale k self)
       = normalized_geometry (left_corner (scale k self)) (right_corner (scale k self))
   \<and> geometry (Rectangle (Point c b) (Point a d) opts)
       = geometry (Rectangle (Point a b) (Point c d) opts)
   \<and> geometry (Rectangle (Point a d) (Point c b) opts)
       = geometry (Rectangle (Point a b) (Point c d) opts)
   \<and> geometry (Rectangle (Point c d) (Point a b) opts)
       = geometry (Rectangle (Point a b) (Point c d) opts)"
  by (simp add: Rectangle_def set_left_corner_def set_right_corner_def shift_def scale_def
      geometry_set_attributes set_attributes_corners normalized_geometry_orderings)

text \<open>
  C4. After assigning \<open>left_corner\<close> or \<open>right_corner\<close>, the rectangle is the one
  that construction gives from the new corner, the other corner and the options:
  nothing derived from the previous corner remains, whatever the attributes held
  before.
\<close>

theorem corner_assignment_no_stale_values:
  "set_left_corner new_corner self = Rectangle new_corner (right_corner self) (rect_options self)
   \<and> set_right_corner new_corner self = Rectangle (left_corner self) new_corner (rect_options self)"
  by (cases self) (simp add: set_left_corner_def set_right_corner_def Rectangle_def
      set_attributes_def Let_def)

text \<open>
  C7. \<open>Rectangle((2,2), (3,4), options="Blue")\<close> has width 1, height 2, center
  (2.5, 3.0), north (2.5, 4), south (2.5, 2), east (3, 3), west (2, 3), and its text is
  \<open>\draw[Blue] (2, 2) rectangle (3, 4);\<close>.
\<close>

theorem rectangle_constructor_example:
  "let r = Rectangle (Point (PInt 2) (PInt 2)) (Point (PInt 3) (PInt 4)) ''Blue''
   in val (width r) = 1 \<and> val (height r) = 2
      \<and> point_eq (center r) (Point (PFloat 2.5) (PFloat 3.0))
      \<and> point_eq (north r) (Point (PFloat 2.5) (PInt 4))
      \<and> point_eq (south r) (Point (PFloat 2.5) (PInt 2))
      \<and> point_eq (east r) (Point (PInt 3) (PInt 3))
      \<and> point_eq (west r) (Point (PInt 2) (PInt 3))
      \<and> rect_code str_float r = bs # ''draw[Blue] (2, 2) rectangle (3, 4);''"
  by (simp add: Rectangle_def set_attributes_def Let_def point_eq_def n_min_def n_max_def
      half_def rect_code_def point_code_def brackets_def str_int_def)

text \<open>
  Shifting and scaling a rectangle whose corners are Python ints, by ints: the
  arithmetic is exact. The corners are translated by the delta, or multiplied by the
  factor; after a shift the width and the height are what they were, after a scaling
  they are what they were times \<open>abs(factor)\<close>. Nothing is stated here for floats,
  whose sums, differences and products are rounded.
\<close>

lemma shift_int_rectangle:
  "left_corner (shift (PInt dx) (PInt dy)
      (Rectangle (Point (PInt a) (PInt b)) (Point (PInt c) (PInt d)) opts))
     = Point (PInt (a + dx)) (PInt (b + dy))
   \<and> right_corner (shift (PInt dx) (PInt dy)
      (Rectangle (Point (PInt a) (PInt b)) (Point (PInt c) (PInt d)) opts))
     = Point (PInt (c + dx)) (PInt (d + dy))
   \<and> width (shift (PInt dx) (PInt dy)
      (Rectangle (Point (PInt a) (PInt b)) (Point (PInt c) (PInt d)) opts))
     = width (Rectangle (Point (PInt a) (PInt b)) (Point (PInt c) (PInt d)) opts)
   \<and> height (shift (PInt dx) (PInt dy)
      (Rectangle (Point (PInt a) (PInt b)) (Point (PInt c) (PInt d)) opts))
     = height (Rectangle (Point (PInt a) (PInt b)) (Point (PInt c) (PInt d)) opts)"
  by (simp add: shift_def Rectangle_def set_attributes_def Let_def point_shift_def)

lemma scale_int_rectangle:
  "left_corner (scale (PInt k)
      (Rectangle (Point (PInt a) (PInt b)) (Point (PInt c) (PInt d)) opts))
     = Point (PInt (a * k)) (PInt (b * k))
   \<and> right_corner (scale (PInt k)
      (Rectangle (Point (PInt a) (PInt b)) (Point (PInt c) (PInt d)) opts))
     = Point (PInt (c * k)) (PInt (d * k))
   \<and> width (scale (PInt k)
      (Rectangle (Point (PInt a) (PInt b)) (Point (PInt c) (PInt d)) opts))
     = mul (width (Rectangle (Point (PInt a) (PInt b)) (Point (PInt c) (PInt d)) opts))
           (n_abs (PInt k))
   \<and> height (scale (PInt k)
      (Rectangle (Point (PInt a) (PInt b)) (Point (PInt c) (PInt d)) opts))
     = mul (height (Rectangle (Point (PInt a) (PInt b)) (Point (PInt c) (PInt d)) opts))
           (n_abs (PInt k))"
proof -
  have factor: "\<And>x y :: int. \<bar>x * k - y * k\<bar> = \<bar>x - y\<bar> * \<bar>k\<bar>"
    by (simp add: left_diff_distrib [symmetric] abs_mult)
  show ?thesis
    by (simp add: scale_def Rectangle_def set_attributes_def Let_def point_scale_def factor)
qed

end
